theory Spec2Isabelle
  imports Complex_Main "HOL-Library.Word"
begin

section \<open>Magnum::Math::MathTypeTraits\<close>

text \<open>
  A shallow embedding of \<^verbatim>\<open>src/Math/MathTypeTraits.h\<close>. The header is read as the
  compiler reads it, that is with \<^verbatim>\<open>DOXYGEN_GENERATING_OUTPUT\<close> undefined, so the members
  of the primary template that exist only for the documentation are absent.
\<close>

subsection \<open>The template and its specializations\<close>

text \<open>The eleven types the header specializes \<^verbatim>\<open>MathTypeTraits\<close> for, and any other type.\<close>

datatype integral = UInt8 | Int8 | UInt16 | Int16 | UInt32 | Int32 | UInt64 | Int64

datatype floating = Float | Double | LongDouble

datatype ctype = Integral integral | Floating floating | Other string

text \<open>
  The structs of the header: the primary template \<^verbatim>\<open>MathTypeTraits<T>\<close>, its explicit
  specializations, and the three helpers of namespace \<^verbatim>\<open>Implementation\<close>.
\<close>

datatype struct =
    Primary
  | SpecializationI integral
  | SpecializationF floating
  | MathTypeTraitsDefault
  | MathTypeTraitsIntegral
  | MathTypeTraitsFloatingPoint

datatype member = FloatingPointType_m | epsilon_m | equals_m

text \<open>Which struct \<^verbatim>\<open>MathTypeTraits<T>\<close> names: an explicit specialization when there is one.\<close>

fun MathTypeTraits :: "ctype \<Rightarrow> struct" where
  "MathTypeTraits (Integral T) = SpecializationI T"
| "MathTypeTraits (Floating T) = SpecializationF T"
| "MathTypeTraits (Other n) = Primary"

text \<open>The base class of each struct, as written after the colon of its declaration.\<close>

fun base :: "struct \<Rightarrow> struct option" where
  "base Primary = Some MathTypeTraitsDefault"
| "base (SpecializationI T) = Some MathTypeTraitsIntegral"
| "base (SpecializationF T) = Some MathTypeTraitsFloatingPoint"
| "base MathTypeTraitsIntegral = Some MathTypeTraitsDefault"
| "base MathTypeTraitsDefault = None"
| "base MathTypeTraitsFloatingPoint = None"

text \<open>The members each struct declares in its own body.\<close>

fun declares :: "struct \<Rightarrow> member \<Rightarrow> bool" where
  "declares MathTypeTraitsDefault m = (m = equals_m)"
| "declares Primary m = False"
| "declares MathTypeTraitsIntegral m = (m = epsilon_m)"
| "declares (SpecializationI T) m = (m = FloatingPointType_m)"
| "declares MathTypeTraitsFloatingPoint m = (m = equals_m)"
| "declares (SpecializationF T) m = (m = FloatingPointType_m \<or> m = epsilon_m)"

fun depth :: "struct \<Rightarrow> nat" where
  "depth Primary = 1"
| "depth (SpecializationI T) = 2"
| "depth (SpecializationF T) = 1"
| "depth MathTypeTraitsIntegral = 1"
| "depth MathTypeTraitsDefault = 0"
| "depth MathTypeTraitsFloatingPoint = 0"

text \<open>
  Class member lookup: the struct itself, then its base. \<open>None\<close> is a name that is not a
  member, which the compiler rejects.
\<close>

function lookup :: "struct \<Rightarrow> member \<Rightarrow> struct option" where
  "lookup s m =
     (if declares s m then Some s
      else case base s of None \<Rightarrow> None | Some b \<Rightarrow> lookup b m)"
  by pat_completeness auto
termination
  by (relation "measure (\<lambda>(s, m). depth s)") (auto elim: base.elims)

declare lookup.simps [simp del]

text \<open>
  The \<^verbatim>\<open>typedef ... FloatingPointType\<close> in the body of each specialization; no other
  struct has one.
\<close>

fun FloatingPointType :: "struct \<Rightarrow> ctype option" where
  "FloatingPointType (SpecializationI UInt8) = Some (Floating Float)"
| "FloatingPointType (SpecializationI Int8) = Some (Floating Float)"
| "FloatingPointType (SpecializationI UInt16) = Some (Floating Float)"
| "FloatingPointType (SpecializationI Int16) = Some (Floating Float)"
| "FloatingPointType (SpecializationI UInt32) = Some (Floating Double)"
| "FloatingPointType (SpecializationI Int32) = Some (Floating Double)"
| "FloatingPointType (SpecializationI UInt64) = Some (Floating LongDouble)"
| "FloatingPointType (SpecializationI Int64) = Some (Floating LongDouble)"
| "FloatingPointType (SpecializationF Float) = Some (Floating Float)"
| "FloatingPointType (SpecializationF Double) = Some (Floating Double)"
| "FloatingPointType (SpecializationF LongDouble) = Some (Floating LongDouble)"
| "FloatingPointType Primary = None"
| "FloatingPointType MathTypeTraitsDefault = None"
| "FloatingPointType MathTypeTraitsIntegral = None"
| "FloatingPointType MathTypeTraitsFloatingPoint = None"

subsection \<open>Floating-point values\<close>

text \<open>
  The floating-point types are modelled by their values under IEEE 754 arithmetic in the
  default rounding mode (round to nearest, ties to even), each operation and each
  conversion rounded to the format of its type, with no excess precision. \<^verbatim>\<open>float\<close> is
  binary32 and \<^verbatim>\<open>double\<close> is binary64; the format of \<^verbatim>\<open>long double\<close> is left to the
  build. A value is a NaN, an infinity with its sign, or a finite number
  \<open>(-1)\<^sup>s \<sqdot> m \<sqdot> 2\<^sup>e\<close> given by its sign \<open>s\<close>, integer significand \<open>m\<close> and exponent \<open>e\<close>
  (so the two zeros are distinct, and a number has several such triples, which the
  comparisons do not tell apart). A format is its precision in bits and its largest
  exponent.
\<close>

record format =
  prec :: nat
  emax :: int

definition binary32 :: format where
  "binary32 = \<lparr>prec = 24, emax = 127\<rparr>"

definition binary64 :: format where
  "binary64 = \<lparr>prec = 53, emax = 1023\<rparr>"

definition x87_extended :: format where
  "x87_extended = \<lparr>prec = 64, emax = 16383\<rparr>"

definition binary128 :: format where
  "binary128 = \<lparr>prec = 113, emax = 16383\<rparr>"

definition emin :: "format \<Rightarrow> int" where
  "emin fmt = 1 - emax fmt"

text \<open>The exponents of the smallest and of the largest unit in the last place.\<close>

definition qmin :: "format \<Rightarrow> int" where
  "qmin fmt = emin fmt - int (prec fmt) + 1"

definition qmax :: "format \<Rightarrow> int" where
  "qmax fmt = emax fmt - int (prec fmt) + 1"

datatype fpv = NaN | Infinity bool | Finite bool int int

definition pow2 :: "int \<Rightarrow> rat" where
  "pow2 e = (if 0 \<le> e then 2 ^ nat e else 1 / 2 ^ nat (- e))"

fun valof :: "fpv \<Rightarrow> rat" where
  "valof (Finite s m e) = (if s then - (of_int m * pow2 e) else of_int m * pow2 e)"
| "valof (Infinity s) = 0"
| "valof NaN = 0"

fun is_finite :: "fpv \<Rightarrow> bool" where
  "is_finite (Finite s m e) = True"
| "is_finite (Infinity s) = False"
| "is_finite NaN = False"


text \<open>The number of binary digits of a positive integer.\<close>

function bit_length :: "int \<Rightarrow> int" where
  "bit_length n = (if n \<le> 0 then 0 else 1 + bit_length (n div 2))"
  by pat_completeness auto
termination
  by (relation "measure nat") auto

declare bit_length.simps [simp del]

text \<open>For \<open>x > 0\<close>, the exponent \<open>e\<close> with \<open>2\<^sup>e \<le> x < 2\<^sup>e\<^sup>+\<^sup>1\<close>.\<close>

definition ilog2 :: "rat \<Rightarrow> int" where
  "ilog2 x = (if 1 \<le> x then bit_length \<lfloor>x\<rfloor> - 1 else - bit_length (\<lceil>1 / x\<rceil> - 1))"

text \<open>
  The exponent of the unit in the last place for a magnitude \<open>x > 0\<close>: that of the
  binade of \<open>x\<close>, or of the smallest binade when \<open>x\<close> is below the normal range.
\<close>

definition ulp_exponent :: "format \<Rightarrow> rat \<Rightarrow> int" where
  "ulp_exponent fmt x = max (ilog2 x) (emin fmt) - int (prec fmt) + 1"

text \<open>The integer nearest to \<open>n\<close>; of two equally near ones, the even one.\<close>

definition nearest_even :: "rat \<Rightarrow> int" where
  "nearest_even n =
     (if n - of_int \<lfloor>n\<rfloor> < 1 / 2 \<or> (n - of_int \<lfloor>n\<rfloor> = 1 / 2 \<and> even \<lfloor>n\<rfloor>) then \<lfloor>n\<rfloor>
      else \<lfloor>n\<rfloor> + 1)"

text \<open>
  Rounding of the magnitude \<open>x \<ge> 0\<close> with sign \<open>s\<close> to a format, to nearest, ties to
  even: \<open>x\<close> is counted in units in the last place and rounded to an integer; a
  significand that the rounding carries to \<open>2\<^sup>p\<close> moves to the next binade; and a result
  beyond the largest finite number is an infinity.
\<close>

definition round_to :: "format \<Rightarrow> bool \<Rightarrow> rat \<Rightarrow> fpv" where
  "round_to fmt s x =
     (if x = 0 then Finite s 0 (qmin fmt)
      else
        let q = ulp_exponent fmt x;
            m = nearest_even (x * pow2 (- q))
        in if m = 2 ^ prec fmt
           then (if qmax fmt < q + 1 then Infinity s
                 else Finite s (2 ^ (prec fmt - 1)) (q + 1))
           else (if qmax fmt < q then Infinity s else Finite s m q))"

text \<open>A format has at least one bit of precision and a normal range.\<close>

definition valid_format :: "format \<Rightarrow> bool" where
  "valid_format fmt = (1 \<le> prec fmt \<and> 1 \<le> emax fmt)"

text \<open>
  \<^verbatim>\<open>a - b\<close>. A NaN operand gives a NaN, and so do two infinities of the same sign. An
  exact difference of zero is \<open>+0\<close>, except that \<open>(-0) - (+0)\<close> is \<open>-0\<close>.
\<close>

fun fsub :: "format \<Rightarrow> fpv \<Rightarrow> fpv \<Rightarrow> fpv" where
  "fsub fmt NaN b = NaN"
| "fsub fmt a NaN = NaN"
| "fsub fmt (Infinity sa) (Infinity sb) = (if sa = sb then NaN else Infinity sa)"
| "fsub fmt (Infinity sa) (Finite sb mb eb) = Infinity sa"
| "fsub fmt (Finite sa ma ea) (Infinity sb) = Infinity (\<not> sb)"
| "fsub fmt (Finite sa ma ea) (Finite sb mb eb) =
     (let d = valof (Finite sa ma ea) - valof (Finite sb mb eb)
      in if d = 0 then Finite (sa \<and> \<not> sb) 0 (qmin fmt)
         else round_to fmt (d < 0) \<bar>d\<bar>)"

text \<open>\<^verbatim>\<open>std::abs\<close> clears the sign.\<close>

fun fabs :: "fpv \<Rightarrow> fpv" where
  "fabs NaN = NaN"
| "fabs (Infinity s) = Infinity False"
| "fabs (Finite s m e) = Finite False m e"

text \<open>\<^verbatim>\<open>a < b\<close>: false when either operand is a NaN.\<close>

fun flt :: "fpv \<Rightarrow> fpv \<Rightarrow> bool" where
  "flt NaN b = False"
| "flt a NaN = False"
| "flt (Infinity sa) (Infinity sb) = (sa \<and> \<not> sb)"
| "flt (Infinity sa) (Finite sb mb eb) = sa"
| "flt (Finite sa ma ea) (Infinity sb) = (\<not> sb)"
| "flt (Finite sa ma ea) (Finite sb mb eb) =
     (valof (Finite sa ma ea) < valof (Finite sb mb eb))"

text \<open>\<^verbatim>\<open>a == b\<close> on floating-point values, as the value comparisons of the language do it.\<close>

fun feq :: "fpv \<Rightarrow> fpv \<Rightarrow> bool" where
  "feq NaN b = False"
| "feq a NaN = False"
| "feq (Infinity sa) (Infinity sb) = (sa = sb)"
| "feq (Infinity sa) (Finite sb mb eb) = False"
| "feq (Finite sa ma ea) (Infinity sb) = False"
| "feq (Finite sa ma ea) (Finite sb mb eb) =
     (valof (Finite sa ma ea) = valof (Finite sb mb eb))"

text \<open>A conversion between floating-point types rounds to the target format.\<close>

fun convert :: "format \<Rightarrow> fpv \<Rightarrow> fpv" where
  "convert fmt NaN = NaN"
| "convert fmt (Infinity s) = Infinity s"
| "convert fmt (Finite s m e) = round_to fmt s \<bar>of_int m * pow2 e\<bar>"

text \<open>An unsuffixed decimal literal is the \<^verbatim>\<open>double\<close> nearest to its decimal value.\<close>

definition double_literal :: "rat \<Rightarrow> fpv" where
  "double_literal x = round_to binary64 False x"

subsection \<open>The build: the three precision macros and the target's long double\<close>

text \<open>
  Each macro can be defined before the header is included; its value is then that of an
  arbitrary constant expression. The format of \<^verbatim>\<open>long double\<close> is the target's.
\<close>

record build =
  FLOAT_EQUALITY_PRECISION :: fpv
  DOUBLE_EQUALITY_PRECISION :: fpv
  LONG_DOUBLE_EQUALITY_PRECISION :: fpv
  long_double :: format

text \<open>The build that defines none of the macros, so that the \<^verbatim>\<open>#ifndef\<close> defaults apply.\<close>

definition default_build :: "format \<Rightarrow> build" where
  "default_build ld =
     \<lparr>FLOAT_EQUALITY_PRECISION = double_literal (1 / 10 ^ 6),
      DOUBLE_EQUALITY_PRECISION = double_literal (1 / 10 ^ 12),
      LONG_DOUBLE_EQUALITY_PRECISION = double_literal (1 / 10 ^ 18),
      long_double = ld\<rparr>"

text \<open>The formats \<^verbatim>\<open>long double\<close> has on the usual targets.\<close>

definition known_long_double :: "format \<Rightarrow> bool" where
  "known_long_double ld = (ld = binary64 \<or> ld = x87_extended \<or> ld = binary128)"

fun format_of :: "build \<Rightarrow> floating \<Rightarrow> format" where
  "format_of bld Float = binary32"
| "format_of bld Double = binary64"
| "format_of bld LongDouble = long_double bld"

subsection \<open>Floating-point scalar types\<close>

text \<open>
  \<^verbatim>\<open>MathTypeTraits<T>::epsilon\<close> of the three floating-point specializations returns the
  macro, converted to the return type.
\<close>

fun MathTypeTraits_epsilon :: "build \<Rightarrow> floating \<Rightarrow> fpv" where
  "MathTypeTraits_epsilon bld Float = convert binary32 (FLOAT_EQUALITY_PRECISION bld)"
| "MathTypeTraits_epsilon bld Double = convert binary64 (DOUBLE_EQUALITY_PRECISION bld)"
| "MathTypeTraits_epsilon bld LongDouble =
     convert (long_double bld) (LONG_DOUBLE_EQUALITY_PRECISION bld)"

declare MathTypeTraits_epsilon.simps [simp del]

text \<open>
  \<^verbatim>\<open>MathTypeTraitsFloatingPoint<T>::equals\<close>:
  \<^verbatim>\<open>return std::abs(a - b) < MathTypeTraits<T>::epsilon();\<close>
\<close>

definition MathTypeTraitsFloatingPoint_equals :: "build \<Rightarrow> floating \<Rightarrow> fpv \<Rightarrow> fpv \<Rightarrow> bool" where
  "MathTypeTraitsFloatingPoint_equals bld T a b =
     flt (fabs (fsub (format_of bld T) a b)) (MathTypeTraits_epsilon bld T)"

subsection \<open>Values and the calls of the trait operations\<close>

text \<open>
  A value of one of the eleven supported types, or of another scalar type (\<^verbatim>\<open>bool\<close>,
  \<^verbatim>\<open>char\<close>, an enumeration, ...), which is given by the name of its type and its integer
  value.
\<close>

datatype scalar_value =
    UInt8_v "8 word"
  | Int8_v "8 word"
  | UInt16_v "16 word"
  | Int16_v "16 word"
  | UInt32_v "32 word"
  | Int32_v "32 word"
  | UInt64_v "64 word"
  | Int64_v "64 word"
  | Float_v fpv
  | Double_v fpv
  | LongDouble_v fpv
  | Other_v string int

fun type_of :: "scalar_value \<Rightarrow> ctype" where
  "type_of (UInt8_v a) = Integral UInt8"
| "type_of (Int8_v a) = Integral Int8"
| "type_of (UInt16_v a) = Integral UInt16"
| "type_of (Int16_v a) = Integral Int16"
| "type_of (UInt32_v a) = Integral UInt32"
| "type_of (Int32_v a) = Integral Int32"
| "type_of (UInt64_v a) = Integral UInt64"
| "type_of (Int64_v a) = Integral Int64"
| "type_of (Float_v a) = Floating Float"
| "type_of (Double_v a) = Floating Double"
| "type_of (LongDouble_v a) = Floating LongDouble"
| "type_of (Other_v n a) = Other n"

text \<open>The number an integral value stands for; \<open>None\<close> for a floating-point value.\<close>

fun int_of :: "scalar_value \<Rightarrow> int option" where
  "int_of (UInt8_v a) = Some (uint a)"
| "int_of (Int8_v a) = Some (sint a)"
| "int_of (UInt16_v a) = Some (uint a)"
| "int_of (Int16_v a) = Some (sint a)"
| "int_of (UInt32_v a) = Some (uint a)"
| "int_of (Int32_v a) = Some (sint a)"
| "int_of (UInt64_v a) = Some (uint a)"
| "int_of (Int64_v a) = Some (sint a)"
| "int_of (Float_v a) = None"
| "int_of (Double_v a) = None"
| "int_of (LongDouble_v a) = None"
| "int_of (Other_v n a) = Some a"

fun float_of :: "scalar_value \<Rightarrow> fpv option" where
  "float_of (Float_v a) = Some a"
| "float_of (Double_v a) = Some a"
| "float_of (LongDouble_v a) = Some a"
| "float_of (UInt8_v a) = None"
| "float_of (Int8_v a) = None"
| "float_of (UInt16_v a) = None"
| "float_of (Int16_v a) = None"
| "float_of (UInt32_v a) = None"
| "float_of (Int32_v a) = None"
| "float_of (UInt64_v a) = None"
| "float_of (Int64_v a) = None"
| "float_of (Other_v n a) = None"

fun float_value :: "floating \<Rightarrow> fpv \<Rightarrow> scalar_value" where
  "float_value Float x = Float_v x"
| "float_value Double x = Double_v x"
| "float_value LongDouble x = LongDouble_v x"

text \<open>The conversion \<^verbatim>\<open>T(i)\<close> of an integer to an integral type \<open>T\<close>.\<close>

fun integral_value :: "integral \<Rightarrow> (int \<Rightarrow> scalar_value)" where
  "integral_value UInt8 = (\<lambda>i. UInt8_v (word_of_int i))"
| "integral_value Int8 = (\<lambda>i. Int8_v (word_of_int i))"
| "integral_value UInt16 = (\<lambda>i. UInt16_v (word_of_int i))"
| "integral_value Int16 = (\<lambda>i. Int16_v (word_of_int i))"
| "integral_value UInt32 = (\<lambda>i. UInt32_v (word_of_int i))"
| "integral_value Int32 = (\<lambda>i. Int32_v (word_of_int i))"
| "integral_value UInt64 = (\<lambda>i. UInt64_v (word_of_int i))"
| "integral_value Int64 = (\<lambda>i. Int64_v (word_of_int i))"

text \<open>
  \<^verbatim>\<open>MathTypeTraitsDefault<T>::equals\<close> is \<^verbatim>\<open>return a == b;\<close> on two values of the type
  \<open>T\<close>, and \<^verbatim>\<open>MathTypeTraitsIntegral<T>::epsilon\<close> is \<^verbatim>\<open>return T(1);\<close>
\<close>

definition MathTypeTraitsDefault_equals :: "scalar_value \<Rightarrow> scalar_value \<Rightarrow> bool" where
  "MathTypeTraitsDefault_equals a b =
     (case (float_of a, float_of b) of (Some x, Some y) \<Rightarrow> feq x y | _ \<Rightarrow> a = b)"

definition MathTypeTraitsIntegral_epsilon :: "integral \<Rightarrow> scalar_value" where
  "MathTypeTraitsIntegral_epsilon T = integral_value T 1"

definition value_finite :: "scalar_value \<Rightarrow> bool" where
  "value_finite v = (case float_of v of None \<Rightarrow> True | Some x \<Rightarrow> is_finite x)"

text \<open>
  The call \<^verbatim>\<open>MathTypeTraits<T>::equals(a, b)\<close> on two values of the type \<open>T\<close>: the name
  is looked up in \<^verbatim>\<open>MathTypeTraits<T>\<close> and the function found is called. \<open>None\<close> is a
  call that does not compile, the name not being a member; two values of different
  types are not such a call, and have no result either.
\<close>

definition equals :: "build \<Rightarrow> scalar_value \<Rightarrow> scalar_value \<Rightarrow> bool option" where
  "equals bld a b =
     (if type_of a \<noteq> type_of b then None
      else case lookup (MathTypeTraits (type_of a)) equals_m of
          Some MathTypeTraitsDefault \<Rightarrow> Some (MathTypeTraitsDefault_equals a b)
        | Some MathTypeTraitsFloatingPoint \<Rightarrow>
            (case (type_of a, float_of a, float_of b) of
               (Floating T, Some x, Some y) \<Rightarrow>
                 Some (MathTypeTraitsFloatingPoint_equals bld T x y)
             | _ \<Rightarrow> None)
        | _ \<Rightarrow> None)"

text \<open>The call \<^verbatim>\<open>MathTypeTraits<T>::epsilon()\<close>, resolved in the same way.\<close>

definition epsilon :: "build \<Rightarrow> ctype \<Rightarrow> scalar_value option" where
  "epsilon bld T =
     (case (lookup (MathTypeTraits T) epsilon_m, T) of
        (Some MathTypeTraitsIntegral, Integral I) \<Rightarrow>
          Some (MathTypeTraitsIntegral_epsilon I)
      | (Some (SpecializationF F), Floating F') \<Rightarrow>
          Some (float_value F (MathTypeTraits_epsilon bld F))
      | _ \<Rightarrow> None)"

text \<open>The type \<^verbatim>\<open>MathTypeTraits<T>::FloatingPointType\<close>, resolved in the same way.\<close>

definition floatingPointType :: "ctype \<Rightarrow> ctype option" where
  "floatingPointType T =
     (case lookup (MathTypeTraits T) FloatingPointType_m of
        None \<Rightarrow> None
      | Some s \<Rightarrow> FloatingPointType s)"

text \<open>\<^verbatim>\<open>0 < MathTypeTraits<T>::epsilon()\<close> for a floating-point \<open>T\<close>; nothing to ask of another type.\<close>

definition epsilon_positive :: "build \<Rightarrow> ctype \<Rightarrow> bool" where
  "epsilon_positive bld T =
     (case T of Floating F \<Rightarrow> flt (Finite False 0 0) (MathTypeTraits_epsilon bld F)
      | _ \<Rightarrow> True)"

section \<open>Properties\<close>

subsection \<open>Member lookup\<close>

lemma lookup_Default:
  "lookup MathTypeTraitsDefault m = (if m = equals_m then Some MathTypeTraitsDefault else None)"
  by (subst lookup.simps) simp

lemma lookup_FloatingPoint:
  "lookup MathTypeTraitsFloatingPoint m =
     (if m = equals_m then Some MathTypeTraitsFloatingPoint else None)"
  by (subst lookup.simps) simp

lemma lookup_Integral:
  "lookup MathTypeTraitsIntegral m =
     (if m = epsilon_m then Some MathTypeTraitsIntegral
      else if m = equals_m then Some MathTypeTraitsDefault else None)"
  by (subst lookup.simps) (simp add: lookup_Default)

lemma lookup_Primary:
  "lookup Primary m = (if m = equals_m then Some MathTypeTraitsDefault else None)"
  by (subst lookup.simps) (simp add: lookup_Default)

lemma lookup_SpecializationI:
  "lookup (SpecializationI T) m =
     (case m of FloatingPointType_m \<Rightarrow> Some (SpecializationI T)
      | epsilon_m \<Rightarrow> Some MathTypeTraitsIntegral
      | equals_m \<Rightarrow> Some MathTypeTraitsDefault)"
  by (subst lookup.simps) (simp add: lookup_Integral split: member.splits)

lemma lookup_SpecializationF:
  "lookup (SpecializationF T) m =
     (case m of FloatingPointType_m \<Rightarrow> Some (SpecializationF T)
      | epsilon_m \<Rightarrow> Some (SpecializationF T)
      | equals_m \<Rightarrow> Some MathTypeTraitsFloatingPoint)"
  by (subst lookup.simps) (simp add: lookup_FloatingPoint split: member.splits)

lemmas lookup_eval = lookup_Default lookup_FloatingPoint lookup_Integral lookup_Primary
  lookup_SpecializationI lookup_SpecializationF

subsection \<open>Integral types\<close>

lemma equals_Integral:
  assumes "type_of a = Integral T" and "type_of b = Integral T"
  shows "equals bld a b = Some (a = b)"
  using assms
  by (cases a; cases b) (auto simp: equals_def lookup_eval MathTypeTraitsDefault_equals_def)

lemma int_of_inj:
  assumes "type_of a = Integral T" and "type_of b = Integral T"
  shows "(int_of a = int_of b) = (a = b)"
  using assms by (cases a; cases b) (auto intro: word_uint_eqI signed_word_eqI)

lemma epsilon_Integral: "epsilon bld (Integral T) = Some (integral_value T 1)"
  by (simp add: epsilon_def lookup_eval MathTypeTraitsIntegral_epsilon_def)

lemma integral_value_one:
  "type_of (integral_value T 1) = Integral T \<and> int_of (integral_value T 1) = Some 1"
  by (cases T) simp_all

text \<open>
  C2. For every integral type \<open>T\<close> (8, 16, 32 and 64 bits, signed and unsigned) and all
  values \<open>a\<close> and \<open>b\<close> of \<open>T\<close>, \<^verbatim>\<open>equals(a, b)\<close> is true exactly when \<open>a\<close> and \<open>b\<close> are the
  same value, that is when they stand for the same number; no tolerance is applied.
\<close>

theorem integral_equals_exact:
  "type_of a = Integral T \<Longrightarrow> type_of b = Integral T \<Longrightarrow>
     equals bld a b = Some (a = b) \<and> equals bld a b = Some (int_of a = int_of b)"
  by (simp add: equals_Integral int_of_inj)

text \<open>
  At the \<^verbatim>\<open>int32\<close> values 5 and 6: they compare unequal, although they differ by
  \<^verbatim>\<open>epsilon()\<close>, which is 1.
\<close>

theorem integral_equals_exact_witness:
  "type_of (Int32_v 5) = Integral Int32 \<and> type_of (Int32_v 6) = Integral Int32 \<and>
   equals (default_build x87_extended) (Int32_v 5) (Int32_v 6) = Some False \<and>
   epsilon (default_build x87_extended) (Integral Int32) = Some (Int32_v (6 - 5))"
proof -
  have a: "type_of (Int32_v 5) = Integral Int32" and b: "type_of (Int32_v 6) = Integral Int32"
    by simp_all
  from integral_equals_exact [OF a b, of "default_build x87_extended"]
  have "equals (default_build x87_extended) (Int32_v 5) (Int32_v 6) = Some False"
    by simp
  with a b show ?thesis by (simp add: epsilon_Integral)
qed

text \<open>
  C4. For every integral type \<open>T\<close>, \<^verbatim>\<open>epsilon()\<close> is the value 1 of the type \<open>T\<close>, and it
  depends on the type alone: it is the same in every build.
\<close>

theorem integral_epsilon_one:
  "epsilon bld (Integral T) = Some (integral_value T 1) \<and>
   type_of (integral_value T 1) = Integral T \<and>
   int_of (integral_value T 1) = Some 1 \<and>
   epsilon bld (Integral T) = epsilon bld' (Integral T)"
  by (simp add: epsilon_Integral integral_value_one)

subsection \<open>The floating-point counterpart\<close>


subsection \<open>Types without a specialization\<close>

lemma equals_Other: "equals bld (Other_v n x) (Other_v n y) = Some (x = y)"
  by (simp add: equals_def lookup_eval MathTypeTraitsDefault_equals_def)

text \<open>
  C6, as the code has it. For a type without a specialization, \<^verbatim>\<open>epsilon\<close> and
  \<^verbatim>\<open>FloatingPointType\<close> are not members, so that a use of either does not compile; but
  \<^verbatim>\<open>equals\<close> is a member, inherited by the primary template from
  \<^verbatim>\<open>MathTypeTraitsDefault\<close>, and it is the exact comparison \<^verbatim>\<open>a == b\<close>.
\<close>

theorem unregistered_type_members:
  "lookup (MathTypeTraits (Other n)) epsilon_m = None \<and>
   lookup (MathTypeTraits (Other n)) FloatingPointType_m = None \<and>
   epsilon bld (Other n) = None \<and>
   floatingPointType (Other n) = None \<and>
   lookup (MathTypeTraits (Other n)) equals_m = Some MathTypeTraitsDefault \<and>
   equals bld (Other_v n x) (Other_v n y) = Some (x = y)"
  by (simp add: epsilon_def floatingPointType_def lookup_eval equals_Other)

text \<open>
  That no operation compiles for such a type does not hold:
  \<^verbatim>\<open>MathTypeTraits<bool>::equals(true, false)\<close> compiles and returns \<^verbatim>\<open>false\<close>.
\<close>

theorem unregistered_equals_resolves:
  "lookup (MathTypeTraits (Other ''bool'')) equals_m = Some MathTypeTraitsDefault \<and>
   equals (default_build x87_extended) (Other_v ''bool'' 1) (Other_v ''bool'' 0) = Some False"
  by (simp add: lookup_eval equals_Other)

subsection \<open>Rounding to nearest\<close>

text \<open>
  That \<open>round_to\<close> is the rounding of IEEE 754: its result is a value of the format, it
  is within half a unit in the last place of the number rounded, no value of the format is
  nearer, a tie goes to the even significand, a value of the format rounds to itself, and
  the result is an infinity only from half a unit beyond the largest finite value on.
\<close>

lemma pow2_powi: "pow2 e = 2 powi e"
  by (simp add: pow2_def power_int_def field_simps)

lemma pow2_pos: "0 < pow2 e"
  by (simp add: pow2_powi)

lemma pow2_add: "pow2 (a + b) = pow2 a * pow2 b"
  by (simp add: pow2_powi power_int_add)


lemma pow2_mono: "a \<le> b \<Longrightarrow> pow2 a \<le> pow2 b"
  by (simp add: pow2_powi power_int_increasing)


lemma pow2_cancel: "x * pow2 (- q) * pow2 q = x"
  using pow2_add [of "- q" q] by (simp add: pow2_def mult.assoc)




lemma round_to_unfold:
  assumes "x \<noteq> 0"
  shows "round_to fmt s x =
    (let q = ulp_exponent fmt x; m = nearest_even (x * pow2 (- q)) in
     if m = 2 ^ prec fmt
     then (if qmax fmt < q + 1 then Infinity s else Finite s (2 ^ (prec fmt - 1)) (q + 1))
     else (if qmax fmt < q then Infinity s else Finite s m q))"
  using assms by (simp add: round_to_def)

lemma nearest_even_error: "\<bar>of_int (nearest_even n) - n\<bar> \<le> 1 / 2"
proof -
  define f :: rat where "f = of_int \<lfloor>n\<rfloor>"
  have b: "f \<le> n" "n < f + 1" unfolding f_def by linarith+
  show ?thesis
  proof (cases "n - f < 1 / 2 \<or> (n - f = 1 / 2 \<and> even \<lfloor>n\<rfloor>)")
    case True
    then have eq: "of_int (nearest_even n) = f"
      by (simp add: nearest_even_def f_def)
    from True have "n - f \<le> 1 / 2" by auto
    with b have "\<bar>f - n\<bar> \<le> 1 / 2" by linarith
    then show ?thesis by (simp only: eq)
  next
    case False
    then have eq: "of_int (nearest_even n) = f + 1"
      by (simp add: nearest_even_def f_def)
    from False have "1 / 2 \<le> n - f" by auto
    with b have "\<bar>f + 1 - n\<bar> \<le> 1 / 2" by linarith
    then show ?thesis by (simp only: eq)
  qed
qed

lemma nearest_even_tie:
  assumes "\<bar>of_int (nearest_even n) - n\<bar> = 1 / 2"
  shows "even (nearest_even n)"
proof -
  define f :: rat where "f = of_int \<lfloor>n\<rfloor>"
  have b: "f \<le> n" "n < f + 1" unfolding f_def by linarith+
  show ?thesis
  proof (cases "n - f < 1 / 2 \<or> (n - f = 1 / 2 \<and> even \<lfloor>n\<rfloor>)")
    case True
    then have eq: "nearest_even n = \<lfloor>n\<rfloor>"
      by (simp add: nearest_even_def f_def)
    from assms b have "n - f = 1 / 2"
      unfolding eq f_def [symmetric] by linarith
    with True show ?thesis unfolding eq by auto
  next
    case False
    then have eq: "nearest_even n = \<lfloor>n\<rfloor> + 1"
      by (simp add: nearest_even_def f_def)
    from assms b have "n - f = 1 / 2"
      unfolding eq of_int_add of_int_1 f_def [symmetric] by linarith
    with False show ?thesis unfolding eq by auto
  qed
qed






lemma carry_value:
  assumes "valid_format fmt"
  shows "(of_int (2 ^ (prec fmt - 1)) :: rat) * pow2 (q + 1) = of_int (2 ^ prec fmt) * pow2 q"
proof -
  obtain k where k: "prec fmt = Suc k"
    using assms by (cases "prec fmt") (simp_all add: valid_format_def)
  have "pow2 (q + 1) = pow2 q * 2"
    using pow2_add [of q 1] by (simp add: pow2_def)
  then show ?thesis by (simp add: k)
qed

lemma round_to_error:
  assumes "valid_format fmt" and "0 \<le> x" and "round_to fmt s x = Finite s' m e"
  shows "s' = s \<and> \<bar>of_int m * pow2 e - x\<bar> \<le> pow2 e / 2"
proof (cases "x = 0")
  case True
  with assms(3) show ?thesis
    using pow2_pos [of e] by (auto simp: round_to_def)
next
  case False
  let ?q = "ulp_exponent fmt x"
  let ?n = "x * pow2 (- ?q)"
  let ?m = "nearest_even ?n"
  have "\<bar>of_int ?m - ?n\<bar> * pow2 ?q \<le> 1 / 2 * pow2 ?q"
    using nearest_even_error [of ?n] pow2_pos [of ?q] by (simp only: mult_le_cancel_right_pos)
  moreover have "\<bar>of_int ?m - ?n\<bar> * pow2 ?q = \<bar>of_int ?m * pow2 ?q - x\<bar>"
  proof -
    have "\<bar>of_int ?m - ?n\<bar> * pow2 ?q = \<bar>(of_int ?m - ?n) * pow2 ?q\<bar>"
      using pow2_pos [of ?q] by (simp add: abs_mult)
    also have "(of_int ?m - ?n) * pow2 ?q = of_int ?m * pow2 ?q - ?n * pow2 ?q"
      by (simp add: algebra_simps)
    also have "?n * pow2 ?q = x" by (rule pow2_cancel)
    finally show ?thesis .
  qed
  ultimately have near: "\<bar>of_int ?m * pow2 ?q - x\<bar> \<le> pow2 ?q / 2"
    by simp
  have up: "pow2 ?q \<le> pow2 (?q + 1)"
    by (rule pow2_mono) simp
  show ?thesis
  proof (cases "?m = 2 ^ prec fmt")
    case True
    with assms(3) have r: "s' = s" "m = 2 ^ (prec fmt - 1)" "e = ?q + 1"
      unfolding round_to_unfold [OF False] by (auto simp: Let_def split: if_splits)
    have "of_int m * pow2 e = of_int ?m * pow2 ?q"
      unfolding r True by (rule carry_value [OF assms(1)])
    with near up show ?thesis by (simp add: r)
  next
    case no_carry: False
    with assms(3) have r: "s' = s" "m = ?m" "e = ?q"
      unfolding round_to_unfold [OF False] by (auto simp: Let_def split: if_splits)
    with near show ?thesis by simp
  qed
qed












text \<open>The difference of two finite values is the exact difference, correctly rounded.\<close>

lemma fsub_correctly_rounded:
  assumes "valid_format fmt"
    and "fsub fmt (Finite sa ma ea) (Finite sb mb eb) = Finite s m e"
  shows "\<bar>valof (Finite s m e) - (valof (Finite sa ma ea) - valof (Finite sb mb eb))\<bar>
           \<le> pow2 e / 2"
proof -
  define d where "d = valof (Finite sa ma ea) - valof (Finite sb mb eb)"
  show ?thesis
  proof (cases "d = 0")
    case True
    with assms(2) have "m = 0"
      by (simp add: d_def Let_def del: valof.simps)
    with True pow2_pos [of e] show ?thesis
      unfolding d_def [symmetric] by simp
  next
    case False
    with assms(2) have r: "round_to fmt (d < 0) \<bar>d\<bar> = Finite s m e"
      by (simp add: d_def Let_def del: valof.simps)
    from round_to_error [OF assms(1) _ r]
    have s: "s = (d < 0)" and b: "\<bar>of_int m * pow2 e - \<bar>d\<bar>\<bar> \<le> pow2 e / 2"
      by simp_all
    have v: "valof (Finite s m e) =
        (if d < 0 then - (of_int m * pow2 e) else of_int m * pow2 e)"
      by (simp add: s)
    have "\<bar>valof (Finite s m e) - d\<bar> \<le> pow2 e / 2"
    proof (cases "d < 0")
      case True
      with b show ?thesis unfolding v by (simp only: if_True, linarith?)
    next
      case False
      with b show ?thesis unfolding v by (simp only: if_False, linarith?)
    qed
    then show ?thesis by (simp only: d_def)
  qed
qed

subsection \<open>Floating-point arithmetic\<close>

lemma fabs_round_to: "fabs (round_to fmt s x) = round_to fmt False x"
  by (simp add: round_to_def Let_def)

text \<open>Rounding to nearest is symmetric, so \<^verbatim>\<open>a - b\<close> and \<^verbatim>\<open>b - a\<close> differ in sign only.\<close>

lemma fabs_fsub_commute: "fabs (fsub fmt a b) = fabs (fsub fmt b a)"
proof (cases a)
  case NaN
  then show ?thesis by (cases b) simp_all
next
  case (Infinity sa)
  then show ?thesis by (cases b) auto
next
  case a: (Finite sa ma ea)
  show ?thesis
  proof (cases b)
    case NaN
    with a show ?thesis by simp
  next
    case (Infinity sb)
    with a show ?thesis by simp
  next
    case b: (Finite sb mb eb)
    have "\<bar>valof a - valof b\<bar> = \<bar>valof b - valof a\<bar>"
      by (rule abs_minus_commute)
    moreover have "(valof a - valof b = 0) = (valof b - valof a = 0)"
      by auto
    ultimately show ?thesis
      unfolding a b by (simp add: Let_def fabs_round_to del: valof.simps)
  qed
qed


lemma feq_commute: "feq x y = feq y x"
  by (cases x; cases y) auto

lemma fsub_self: "is_finite a \<Longrightarrow> fabs (fsub fmt a a) = Finite False 0 (qmin fmt)"
  by (cases a) simp_all

lemma fsub_NaN_right: "fsub fmt b NaN = NaN"
  by (cases b) simp_all

lemma flt_zero_exponent: "flt (Finite False 0 e) y = flt (Finite False 0 e') y"
  by (cases y) simp_all









subsection \<open>The default precisions\<close>

lemma double_literal_6: "double_literal (1 / 10 ^ 6) = Finite False 4722366482869645 (- 72)"
  by code_simp

lemma double_literal_12: "double_literal (1 / 10 ^ 12) = Finite False 4951760157141521 (- 92)"
  by code_simp

lemma double_literal_18: "double_literal (1 / 10 ^ 18) = Finite False 5192296858534828 (- 112)"
  by code_simp

lemma eps_float_default:
  "MathTypeTraits_epsilon (default_build ld) Float = Finite False 8796093 (- 43)"
  by code_simp

lemma eps_double_default:
  "MathTypeTraits_epsilon (default_build ld) Double = Finite False 4951760157141521 (- 92)"
  by code_simp

lemma eps_long_double_b64:
  "MathTypeTraits_epsilon (default_build binary64) LongDouble =
     Finite False 5192296858534828 (- 112)"
  by code_simp

lemma eps_long_double_x87:
  "MathTypeTraits_epsilon (default_build x87_extended) LongDouble =
     Finite False 10633823966279327744 (- 123)"
  by code_simp

lemma eps_long_double_b128:
  "MathTypeTraits_epsilon (default_build binary128) LongDouble =
     Finite False 5986310706507378781237472162480128 (- 172)"
  by code_simp

lemma eps_long_double_default:
  assumes "known_long_double ld"
  shows "is_finite (MathTypeTraits_epsilon (default_build ld) LongDouble) \<and>
         valof (MathTypeTraits_epsilon (default_build ld) LongDouble) =
           5192296858534828 / 2 ^ 112"
  using assms unfolding known_long_double_def
  by (elim disjE)
    (simp_all add: eps_long_double_b64 eps_long_double_x87 eps_long_double_b128 pow2_def)

lemma epsilon_positive_default:
  assumes "known_long_double ld"
  shows "epsilon_positive (default_build ld) T"
proof (cases T)
  case (Floating F)
  show ?thesis
  proof (cases F)
    case Float
    with Floating show ?thesis
      by (simp add: epsilon_positive_def eps_float_default pow2_def)
  next
    case Double
    with Floating show ?thesis
      by (simp add: epsilon_positive_def eps_double_default pow2_def)
  next
    case LongDouble
    with Floating assms show ?thesis
      unfolding known_long_double_def
      by (auto simp: epsilon_positive_def eps_long_double_b64 eps_long_double_x87
          eps_long_double_b128 pow2_def)
  qed
qed (simp_all add: epsilon_positive_def)

text \<open>
  C5, as the code has it. In the build that overrides no macro, \<^verbatim>\<open>epsilon<float>()\<close> is
  the \<^verbatim>\<open>double\<close> literal \<^verbatim>\<open>1.0e-6\<close> converted to \<^verbatim>\<open>float\<close>, the number \<open>8796093 / 2\<^sup>4\<^sup>3\<close>,
  within half a unit in the last place of \<open>10\<^sup>-\<^sup>6\<close>; \<^verbatim>\<open>epsilon<double>()\<close> compares equal to
  the literal \<^verbatim>\<open>1.0e-12\<close> and \<^verbatim>\<open>epsilon<long double>()\<close> to the \<^verbatim>\<open>double\<close> literal
  \<^verbatim>\<open>1.0e-18\<close>, each within half a unit in the last place of a \<^verbatim>\<open>double\<close> of its decimal
  value. The values depend on the build alone.
\<close>

theorem default_epsilon_values:
  assumes "known_long_double ld"
  shows "MathTypeTraits_epsilon (default_build ld) Float =
           convert binary32 (double_literal (1 / 10 ^ 6)) \<and>
         valof (MathTypeTraits_epsilon (default_build ld) Float) = 8796093 / 2 ^ 43 \<and>
         \<bar>valof (MathTypeTraits_epsilon (default_build ld) Float) - 1 / 10 ^ 6\<bar> \<le> 1 / 2 ^ 44 \<and>
         feq (MathTypeTraits_epsilon (default_build ld) Double) (double_literal (1 / 10 ^ 12)) \<and>
         \<bar>valof (MathTypeTraits_epsilon (default_build ld) Double) - 1 / 10 ^ 12\<bar> \<le> 1 / 2 ^ 93 \<and>
         feq (MathTypeTraits_epsilon (default_build ld) LongDouble)
           (double_literal (1 / 10 ^ 18)) \<and>
         \<bar>valof (MathTypeTraits_epsilon (default_build ld) LongDouble) - 1 / 10 ^ 18\<bar>
           \<le> 1 / 2 ^ 113"
proof -
  have f: "MathTypeTraits_epsilon (default_build ld) Float =
           convert binary32 (double_literal (1 / 10 ^ 6))"
    by (simp add: default_build_def MathTypeTraits_epsilon.simps)
  have fv: "valof (MathTypeTraits_epsilon (default_build ld) Float) = 8796093 / 2 ^ 43"
    by (simp add: eps_float_default pow2_def)
  have fb: "\<bar>valof (MathTypeTraits_epsilon (default_build ld) Float) - 1 / 10 ^ 6\<bar> \<le> 1 / 2 ^ 44"
    unfolding fv by simp
  have d: "feq (MathTypeTraits_epsilon (default_build ld) Double) (double_literal (1 / 10 ^ 12))"
    unfolding eps_double_default double_literal_12 by simp
  have db: "\<bar>valof (MathTypeTraits_epsilon (default_build ld) Double) - 1 / 10 ^ 12\<bar> \<le> 1 / 2 ^ 93"
    by (simp add: eps_double_default pow2_def)
  obtain s m e where l: "MathTypeTraits_epsilon (default_build ld) LongDouble = Finite s m e"
    using eps_long_double_default [OF assms]
    by (cases "MathTypeTraits_epsilon (default_build ld) LongDouble") auto
  have lv: "valof (MathTypeTraits_epsilon (default_build ld) LongDouble) =
            5192296858534828 / 2 ^ 112"
    using eps_long_double_default [OF assms] by simp
  have lq: "feq (MathTypeTraits_epsilon (default_build ld) LongDouble)
             (double_literal (1 / 10 ^ 18))"
    using lv unfolding l double_literal_18 by (simp add: pow2_def)
  have lb: "\<bar>valof (MathTypeTraits_epsilon (default_build ld) LongDouble) - 1 / 10 ^ 18\<bar>
            \<le> 1 / 2 ^ 113"
    unfolding lv by simp
  from f fv fb d db lq lb show ?thesis by blast
qed

theorem default_epsilon_values_witness:
  "known_long_double x87_extended \<and>
   valof (MathTypeTraits_epsilon (default_build x87_extended) Float) = 8796093 / 2 ^ 43 \<and>
   feq (MathTypeTraits_epsilon (default_build x87_extended) Double)
     (double_literal (1 / 10 ^ 12)) \<and>
   feq (MathTypeTraits_epsilon (default_build x87_extended) LongDouble)
     (double_literal (1 / 10 ^ 18))"
proof -
  have k: "known_long_double x87_extended"
    by (simp add: known_long_double_def)
  from default_epsilon_values [OF k] k show ?thesis by blast
qed

text \<open>
  The comparison \<^verbatim>\<open>epsilon<float>() == 1.0e-6\<close> is false, the \<^verbatim>\<open>float\<close> differing from
  the \<^verbatim>\<open>double\<close> literal; and the value is not the number \<open>10\<^sup>-\<^sup>6\<close> either.
\<close>

theorem float_epsilon_differs_from_literal:
  "\<not> feq (MathTypeTraits_epsilon (default_build x87_extended) Float)
       (double_literal (1 / 10 ^ 6)) \<and>
   valof (MathTypeTraits_epsilon (default_build x87_extended) Float) \<noteq> 1 / 10 ^ 6"
  unfolding eps_float_default double_literal_6 by (simp add: pow2_def)

subsection \<open>The comparison of floating-point values\<close>

lemma equals_float_value:
  "equals bld (float_value T a) (float_value T b) =
     Some (MathTypeTraitsFloatingPoint_equals bld T a b)"
  by (cases T) (simp_all add: equals_def lookup_eval)

lemma MathTypeTraitsDefault_equals_commute:
  "MathTypeTraitsDefault_equals a b = MathTypeTraitsDefault_equals b a"
  by (auto simp: MathTypeTraitsDefault_equals_def feq_commute split: option.splits)

lemma MathTypeTraitsFloatingPoint_equals_commute:
  "MathTypeTraitsFloatingPoint_equals bld T a b = MathTypeTraitsFloatingPoint_equals bld T b a"
  by (simp add: MathTypeTraitsFloatingPoint_equals_def fabs_fsub_commute)

lemma equals_refl_not_floating:
  "float_of a = None \<Longrightarrow> equals bld a a = Some True"
  by (cases a) (simp_all add: equals_def lookup_eval MathTypeTraitsDefault_equals_def)

lemma equals_refl_floating:
  assumes "is_finite x" and "flt (Finite False 0 0) (MathTypeTraits_epsilon bld T)"
  shows "equals bld (float_value T x) (float_value T x) = Some True"
  using assms flt_zero_exponent [of "qmin (format_of bld T)" "MathTypeTraits_epsilon bld T" 0]
  by (simp add: equals_float_value MathTypeTraitsFloatingPoint_equals_def fsub_self)










text \<open>
  Strictly outside: \<^verbatim>\<open>1.0f\<close> and \<^verbatim>\<open>1.0f + 1e-3f\<close>, which is \<open>1 + 8389 / 2\<^sup>2\<^sup>3\<close>, are unequal
  as \<^verbatim>\<open>float\<close> values.
\<close>

lemma equals_float_outside:
  "equals (default_build x87_extended) (Float_v (Finite False 8388608 (- 23)))
     (Float_v (Finite False 8396997 (- 23))) = Some False"
  by code_simp

text \<open>
  C7. Reflexivity: for every supported type and every finite value \<open>a\<close> of it,
  \<^verbatim>\<open>equals(a, a)\<close> is true, for a floating-point type provided that \<^verbatim>\<open>0 < epsilon()\<close>; and
  in the build that overrides no macro \<^verbatim>\<open>0 < epsilon()\<close> holds.
\<close>

theorem equals_reflexive:
  "(value_finite a \<and> epsilon_positive bld (type_of a) \<longrightarrow> equals bld a a = Some True) \<and>
   (known_long_double ld \<longrightarrow> epsilon_positive (default_build ld) T)"
proof (intro conjI impI)
  assume h: "value_finite a \<and> epsilon_positive bld (type_of a)"
  show "equals bld a a = Some True"
  proof (cases "float_of a")
    case None
    then show ?thesis by (rule equals_refl_not_floating)
  next
    case (Some x)
    then obtain F where a: "a = float_value F x"
      by (cases a) (auto intro: float_value.simps [symmetric])
    with h have "is_finite x" and "flt (Finite False 0 0) (MathTypeTraits_epsilon bld F)"
      by (cases F; simp add: value_finite_def epsilon_positive_def)+
    then show ?thesis unfolding a by (rule equals_refl_floating)
  qed
next
  assume "known_long_double ld"
  then show "epsilon_positive (default_build ld) T" by (rule epsilon_positive_default)
qed

theorem equals_reflexive_witness:
  "known_long_double x87_extended \<and>
   value_finite (Float_v (Finite False 3 (- 1))) \<and>
   epsilon_positive (default_build x87_extended) (type_of (Float_v (Finite False 3 (- 1)))) \<and>
   equals (default_build x87_extended) (Float_v (Finite False 3 (- 1)))
     (Float_v (Finite False 3 (- 1))) = Some True"
proof -
  have k: "known_long_double x87_extended"
    by (simp add: known_long_double_def)
  have f: "value_finite (Float_v (Finite False 3 (- 1)))"
    by (simp add: value_finite_def)
  from equals_reflexive [of "Float_v (Finite False 3 (- 1))" "default_build x87_extended"
      x87_extended "Floating Float"] k
  have p: "epsilon_positive (default_build x87_extended) (type_of (Float_v (Finite False 3 (- 1))))"
    by simp
  from equals_reflexive [of "Float_v (Finite False 3 (- 1))" "default_build x87_extended"
      x87_extended "Floating Float"] f p
  have "equals (default_build x87_extended) (Float_v (Finite False 3 (- 1)))
     (Float_v (Finite False 3 (- 1))) = Some True"
    by blast
  with k f p show ?thesis by blast
qed

text \<open>
  C8. Symmetry: for all values \<open>a\<close> and \<open>b\<close> of a supported type, infinities and NaN
  included, \<^verbatim>\<open>equals(a, b)\<close> and \<^verbatim>\<open>equals(b, a)\<close> are the same.
\<close>

theorem equals_symmetric: "equals bld a b = equals bld b a"
proof (cases "type_of a = type_of b")
  case False
  then show ?thesis by (auto simp: equals_def)
next
  case True
  then show ?thesis
    by (auto simp: equals_def MathTypeTraitsDefault_equals_commute
        MathTypeTraitsFloatingPoint_equals_commute
        split: option.splits struct.splits ctype.splits)
qed

text \<open>
  C9. For every floating-point type and every value \<open>b\<close> of it, \<^verbatim>\<open>equals(NaN, b)\<close> and
  \<^verbatim>\<open>equals(b, NaN)\<close> are false; so is \<^verbatim>\<open>equals(NaN, NaN)\<close>.
\<close>

theorem nan_never_equal:
  "equals bld (float_value T NaN) (float_value T b) = Some False \<and>
   equals bld (float_value T b) (float_value T NaN) = Some False \<and>
   equals bld (float_value T NaN) (float_value T NaN) = Some False"
  by (simp add: equals_float_value MathTypeTraitsFloatingPoint_equals_def fsub_NaN_right)

text \<open>
  C10. For every floating-point type, two infinities of the same sign are unequal: their
  difference is a NaN.
\<close>

theorem same_sign_infinities_unequal:
  "fsub (format_of bld T) (Infinity s) (Infinity s) = NaN \<and>
   equals bld (float_value T (Infinity s)) (float_value T (Infinity s)) = Some False"
  by (simp add: equals_float_value MathTypeTraitsFloatingPoint_equals_def)

end
